theory Spec2Isabelle
  imports Main
begin

section \<open>Python values\<close>

text \<open>
  A Python \<^verbatim>\<open>str\<close> is modelled by the bytes of its UTF-8 encoding (\<^typ>\<open>string\<close>).
  Every character the program tests for or inserts (\<^verbatim>\<open>/\<close>, \<^verbatim>\<open>\\<close>, \<^verbatim>\<open>"\<close>, newline,
  carriage return) is ASCII, and an ASCII byte occurs in UTF-8 text only as that
  character, so comparing, searching and replacing on the bytes agrees with Python's
  operations on code points.

  An exception is a value: its class name and the text \<^verbatim>\<open>str(e)\<close> gives.
\<close>

datatype exn = Exn (exn_class: string) (exn_str: string)

definition quote :: "string \<Rightarrow> string" where
  "quote s = CHR 0x27 # s @ [CHR 0x27]"

definition attribute_error :: "string \<Rightarrow> string \<Rightarrow> exn" where
  \<comment> \<open>what \<^verbatim>\<open>x.attr\<close> raises when \<^verbatim>\<open>type(x).__name__\<close> is \<open>ty\<close> and has no such attribute\<close>
  "attribute_error ty attr =
     Exn ''AttributeError'' (quote ty @ '' object has no attribute '' @ quote attr)"

fun digit_char :: "nat \<Rightarrow> char" where
  "digit_char n = char_of (48 + n)"

fun show_nat :: "nat \<Rightarrow> string" where
  "show_nat n = (if n < 10 then [digit_char n] else show_nat (n div 10) @ [digit_char (n mod 10)])"

declare show_nat.simps [simp del]

definition show_int :: "int \<Rightarrow> string" where
  "show_int i = (if i < 0 then CHR ''-'' # show_nat (nat (- i)) else show_nat (nat i))"

subsection \<open>Operations on \<^verbatim>\<open>str\<close>\<close>

fun str_replace :: "string \<Rightarrow> string \<Rightarrow> string \<Rightarrow> string" where
  \<comment> \<open>\<^verbatim>\<open>s.replace(old, new)\<close>: occurrences found left to right, not overlapping\<close>
  "str_replace old new [] = (if old = [] then new else [])"
| "str_replace old new (c # cs) =
     (if old = [] then new @ c # str_replace old new cs
      else if take (length old) (c # cs) = old
        then new @ str_replace old new (drop (length old) (c # cs))
      else c # str_replace old new cs)"

definition startswith :: "string \<Rightarrow> string \<Rightarrow> bool" where
  "startswith s p \<longleftrightarrow> take (length p) s = p"

definition whitespace :: "string list" where
  \<comment> \<open>the characters for which \<^verbatim>\<open>str.isspace\<close> holds, in UTF-8: U+0009 to U+000D,
      U+001C to U+0020, U+0085, U+00A0, U+1680, U+2000 to U+200A, U+2028, U+2029,
      U+202F, U+205F, U+3000\<close>
  "whitespace =
     map (\<lambda>c. [c]) [CHR 0x09, CHR 0x0A, CHR 0x0B, CHR 0x0C, CHR 0x0D,
                     CHR 0x1C, CHR 0x1D, CHR 0x1E, CHR 0x1F, CHR 0x20]
     @ [[CHR 0xC2, CHR 0x85], [CHR 0xC2, CHR 0xA0], [CHR 0xE1, CHR 0x9A, CHR 0x80]]
     @ map (\<lambda>c. [CHR 0xE2, CHR 0x80, c])
         [CHR 0x80, CHR 0x81, CHR 0x82, CHR 0x83, CHR 0x84, CHR 0x85, CHR 0x86, CHR 0x87,
          CHR 0x88, CHR 0x89, CHR 0x8A, CHR 0xA8, CHR 0xA9, CHR 0xAF]
     @ [[CHR 0xE2, CHR 0x81, CHR 0x9F], [CHR 0xE3, CHR 0x80, CHR 0x80]]"

function strip_front :: "string list \<Rightarrow> string \<Rightarrow> string" where
  \<comment> \<open>removes from the front of \<open>s\<close> every leading occurrence of a member of \<open>ws\<close>\<close>
  "strip_front ws s =
     (case find (\<lambda>w. w \<noteq> [] \<and> take (length w) s = w) ws of
        None \<Rightarrow> s
      | Some w \<Rightarrow> strip_front ws (drop (length w) s))"
  by pat_completeness auto
termination
proof (relation "measure (\<lambda>(ws, s). length s)")
  fix ws :: "string list" and s w :: string
  assume "find (\<lambda>w. w \<noteq> [] \<and> take (length w) s = w) ws = Some w"
  then have "w \<noteq> []" and "take (length w) s = w"
    by (auto simp: find_Some_iff)
  then have "length (drop (length w) s) < length s"
    by (cases s) auto
  then show "((ws, drop (length w) s), (ws, s)) \<in> measure (\<lambda>(ws, s). length s)"
    by simp
qed simp

declare strip_front.simps [simp del]

definition strip :: "string \<Rightarrow> string" where
  \<comment> \<open>\<^verbatim>\<open>s.strip()\<close>\<close>
  "strip s = rev (strip_front (map rev whitespace) (rev (strip_front whitespace s)))"

definition escape_lark_text :: "string \<Rightarrow> string" where
  "escape_lark_text text =
     str_replace [CHR 0x0D] [CHR 0x5C, CHR ''r'']
       (str_replace [CHR 0x0A] [CHR 0x5C, CHR ''n'']
         (str_replace [CHR 0x22] [CHR 0x5C, CHR 0x22]
           (str_replace [CHR 0x5C] [CHR 0x5C, CHR 0x5C] text)))"

definition text_payload :: "string \<Rightarrow> string" where
  \<comment> \<open>the f-string of \<^verbatim>\<open>_send_message\<close>\<close>
  \<open>text_payload escaped_text = ''{"text":"'' @ escaped_text @ ''"}''\<close>

subsection \<open>Reading a JSON string literal\<close>

text \<open>
  The receiver of a payload parses it as JSON (RFC 8259, as \<^verbatim>\<open>json.loads\<close> does in its
  default strict mode). A string literal ends at the first unescaped double quote, may
  not contain a raw character below U+0020, and knows the escapes
  \<^verbatim>\<open>\" \\ \/ \b \f \n \r \t\<close> and \<^verbatim>\<open>\uXXXX\<close>, two of the latter forming a surrogate pair.
\<close>

definition hex_digit :: "char \<Rightarrow> nat option" where
  "hex_digit c =
     (let n = (of_char c :: nat)
      in if 48 \<le> n \<and> n \<le> 57 then Some (n - 48)
         else if 65 \<le> n \<and> n \<le> 70 then Some (n - 55)
         else if 97 \<le> n \<and> n \<le> 102 then Some (n - 87)
         else None)"

fun hex4 :: "string \<Rightarrow> nat option" where
  "hex4 (a # b # c # d # rest) =
     (case (hex_digit a, hex_digit b, hex_digit c, hex_digit d) of
        (Some x, Some y, Some z, Some w) \<Rightarrow> Some (((x * 16 + y) * 16 + z) * 16 + w)
      | _ \<Rightarrow> None)"
| "hex4 _ = None"

definition utf8 :: "nat \<Rightarrow> string" where
  \<comment> \<open>the UTF-8 bytes of a code point (a lone surrogate is encoded like its
      neighbours, as Python's \<^verbatim>\<open>surrogatepass\<close> does)\<close>
  "utf8 n =
     (if n < 0x80 then [char_of n]
      else if n < 0x800 then [char_of (0xC0 + n div 64), char_of (0x80 + n mod 64)]
      else if n < 0x10000 then
        [char_of (0xE0 + n div 4096), char_of (0x80 + n div 64 mod 64), char_of (0x80 + n mod 64)]
      else
        [char_of (0xF0 + n div 262144), char_of (0x80 + n div 4096 mod 64),
         char_of (0x80 + n div 64 mod 64), char_of (0x80 + n mod 64)])"

definition json_escape :: "string \<Rightarrow> (string \<times> nat) option" where
  \<comment> \<open>decodes the escape that follows a backslash: the bytes it stands for and the
      number of characters it takes\<close>
  "json_escape cs =
     (case cs of
        [] \<Rightarrow> None
      | e # rest \<Rightarrow>
          if e = CHR 0x22 then Some ([CHR 0x22], 1)
          else if e = CHR 0x5C then Some ([CHR 0x5C], 1)
          else if e = CHR ''/'' then Some (''/'', 1)
          else if e = CHR ''b'' then Some ([CHR 0x08], 1)
          else if e = CHR ''f'' then Some ([CHR 0x0C], 1)
          else if e = CHR ''n'' then Some ([CHR 0x0A], 1)
          else if e = CHR ''r'' then Some ([CHR 0x0D], 1)
          else if e = CHR ''t'' then Some ([CHR 0x09], 1)
          else if e = CHR ''u'' then
            (case hex4 rest of
               None \<Rightarrow> None
             | Some hi \<Rightarrow>
                 (case (if 0xD800 \<le> hi \<and> hi \<le> 0xDBFF \<and> take 2 (drop 4 rest) = [CHR 0x5C, CHR ''u'']
                        then hex4 (drop 6 rest) else None) of
                    Some lo \<Rightarrow>
                      if 0xDC00 \<le> lo \<and> lo \<le> 0xDFFF
                      then Some (utf8 (0x10000 + (hi - 0xD800) * 1024 + (lo - 0xDC00)), 11)
                      else Some (utf8 hi, 5)
                  | None \<Rightarrow> Some (utf8 hi, 5)))
          else None)"

function json_string_body :: "string \<Rightarrow> (string \<times> string) option" where
  \<comment> \<open>reads a string literal whose opening quote has been consumed: the string it
      denotes and the text after its closing quote\<close>
  "json_string_body [] = None"
| "json_string_body (c # cs) =
     (if c = CHR 0x22 then Some ([], cs)
      else if c = CHR 0x5C then
        (case json_escape cs of
           None \<Rightarrow> None
         | Some (bytes, n) \<Rightarrow>
             map_option (\<lambda>(s, rest). (bytes @ s, rest)) (json_string_body (drop n cs)))
      else if (of_char c :: nat) < 0x20 then None
      else map_option (\<lambda>(s, rest). (c # s, rest)) (json_string_body cs))"
  by pat_completeness auto
termination
  by (relation "measure length") auto

definition payload_text :: "string \<Rightarrow> string option" where
  \<comment> \<open>\<^verbatim>\<open>json.loads(payload)["text"]\<close> for a payload of the shape \<^verbatim>\<open>{"text":"..."}\<close>;
      \<open>None\<close> for any other text\<close>
  \<open>payload_text payload =
     (if startswith payload ''{"text":"'' then
        (case json_string_body (drop 9 payload) of
           Some (s, rest) \<Rightarrow> if rest = ''}'' then Some s else None
         | None \<Rightarrow> None)
      else None)\<close>

subsection \<open>Parsed JSON\<close>

text \<open>
  \<^verbatim>\<open>json.load\<close>, \<^verbatim>\<open>json.loads\<close> and \<^verbatim>\<open>json.dump\<close> belong to the Python library. A JSON
  text is modelled by what \<^verbatim>\<open>json.load\<close> makes of it: either the exception it raises,
  or the document it returns. Of a document the program observes whether the top-level
  value is a \<^verbatim>\<open>dict\<close>, the members of that dict, and for a member value whether it
  is a \<^verbatim>\<open>str\<close> and what \<^verbatim>\<open>str()\<close> returns for it. A float, a list and a nested dict
  are therefore carried by the text \<^verbatim>\<open>str()\<close> gives for them. Writing a dict of
  strings with \<^verbatim>\<open>json.dump\<close> produces the text that \<^verbatim>\<open>json.load\<close> reads back as the
  same dict.
\<close>

datatype jvalue =
    JNull
  | JBool bool
  | JInt int
  | JFloat string
  | JString string
  | JArray string
  | JDict string

datatype json =
    JObject "string \<rightharpoonup> jvalue"
  | JNonObject string  \<comment> \<open>any other top-level value, with its Python type name\<close>

datatype json_text =
    Malformed exn  \<comment> \<open>not JSON; the exception \<^verbatim>\<open>json.load\<close> raises on it\<close>
  | Document json

fun py_str :: "jvalue \<Rightarrow> string" where
  "py_str JNull = ''None''"
| "py_str (JBool b) = (if b then ''True'' else ''False'')"
| "py_str (JInt i) = show_int i"
| "py_str (JFloat r) = r"
| "py_str (JString s) = s"
| "py_str (JArray r) = r"
| "py_str (JDict r) = r"

fun type_name :: "jvalue \<Rightarrow> string" where
  "type_name JNull = ''NoneType''"
| "type_name (JBool b) = ''bool''"
| "type_name (JInt i) = ''int''"
| "type_name (JFloat r) = ''float''"
| "type_name (JString s) = ''str''"
| "type_name (JArray r) = ''list''"
| "type_name (JDict r) = ''dict''"

definition items :: "json \<Rightarrow> exn + (string \<rightharpoonup> jvalue)" where
  \<comment> \<open>\<^verbatim>\<open>data.items()\<close>\<close>
  "items data = (case data of
       JObject obj \<Rightarrow> Inr obj
     | JNonObject ty \<Rightarrow> Inl (attribute_error ty ''items''))"

definition empty_file :: json_text where
  \<comment> \<open>a file of length 0, as \<^verbatim>\<open>open(path, 'w')\<close> leaves it\<close>
  "empty_file = Malformed (Exn ''JSONDecodeError'' ''Expecting value: line 1 column 1 (char 0)'')"

definition json_dump :: "(string \<rightharpoonup> string) \<Rightarrow> json_text" where
  \<comment> \<open>the text \<^verbatim>\<open>json.dump(d, f, indent=2)\<close> writes for a dict of strings\<close>
  "json_dump d = Document (JObject (map_option JString \<circ> d))"

section \<open>The environment\<close>

datatype level = DEBUG | INFO | WARNING | ERROR

datatype log_record = Log level string

text \<open>
  The file system maps a path to the regular file stored there and knows which paths
  are directories. Paths are compared as they are written; the directories above a
  created directory are not recorded, since the program never looks at them. A failure
  of the operating system (permissions, a full disk, a broken device) is a fault the
  environment attaches to an operation.
\<close>

datatype fs_op =
    Makedirs string
  | OpenRead string
  | ReadFrom string
  | OpenWrite string
  | WriteTo string

text \<open>
  The two remote services are the other half of the environment. Each is a record of
  the requests it has received, oldest first, and the answer it gives to a request.
\<close>

record lark_request =
  receive_id_type :: string
  receive_id :: string
  msg_type :: string
  content :: string

datatype lark_outcome =
    LarkRaises exn  \<comment> \<open>\<^verbatim>\<open>client.im.v1.message.create\<close> raises\<close>
  | LarkResponse int string  \<comment> \<open>\<^verbatim>\<open>response.code\<close> and \<^verbatim>\<open>response.msg\<close>\<close>

record api_request =
  model :: string
  max_tokens :: nat
  messages :: "(string \<times> string) list"  \<comment> \<open>role and content of each message\<close>

datatype block =
    TextBlock string  \<comment> \<open>a content block with a \<^verbatim>\<open>text\<close> attribute\<close>
  | OtherBlock string  \<comment> \<open>a block of the named class, which has none\<close>

datatype api_outcome =
    ApiRaises exn  \<comment> \<open>\<^verbatim>\<open>client.messages.create\<close> raises\<close>
  | ApiResponse "block list"  \<comment> \<open>\<^verbatim>\<open>response.content\<close>\<close>

record config =
  GLM_API_KEY :: "string option"
  GLM_MODEL :: string
  GLM_API_BASE_URL :: string
  ANTHROPIC_API_KEY :: "string option"
  CLAUDE_MODEL :: string

datatype store_call =
    GetCall string
  | SetCall string string
  | ClearCall string
  | LoadCall
  | SaveCall

record state =
  sessions :: "string \<rightharpoonup> string"  \<comment> \<open>\<^verbatim>\<open>SessionManager._sessions\<close>\<close>
  persistence_path :: string  \<comment> \<open>\<^verbatim>\<open>SessionManager._persistence_path\<close>\<close>
  entered :: "store_call list"
    \<comment> \<open>bookkeeping, not a variable of the program: the calls of \<^verbatim>\<open>SessionManager\<close>
        methods made so far, oldest first\<close>
  running :: bool  \<comment> \<open>\<^verbatim>\<open>FeishuBot._running\<close>\<close>
  client_model :: string  \<comment> \<open>\<^verbatim>\<open>AgentClient.model\<close>\<close>
  settings :: config  \<comment> \<open>the class attributes of \<^verbatim>\<open>Config\<close>\<close>
  files :: "string \<rightharpoonup> json_text"
  dirs :: "string set"
  faults :: "fs_op \<Rightarrow> exn option"
  log :: "log_record list"  \<comment> \<open>the records handed to \<^verbatim>\<open>logger\<close>, oldest first\<close>
  lark_requests :: "lark_request list"
  lark_respond :: "lark_request \<Rightarrow> lark_outcome"
  api_requests :: "api_request list"
  api_respond :: "api_request \<Rightarrow> api_outcome"

type_synonym 'a result = "(exn + 'a) \<times> state"

definition logger :: "level \<Rightarrow> string \<Rightarrow> state \<Rightarrow> state" where
  "logger lv msg st = st\<lparr>log := log st @ [Log lv msg]\<rparr>"

subsection \<open>\<^verbatim>\<open>os\<close> and \<^verbatim>\<open>open\<close>\<close>

definition dirname :: "string \<Rightarrow> string" where
  \<comment> \<open>\<^verbatim>\<open>posixpath.dirname\<close>: everything up to the last slash, trailing slashes removed
      unless nothing else is left\<close>
  "dirname p =
     (let head = rev (dropWhile (\<lambda>c. c \<noteq> CHR ''/'') (rev p))
      in if head \<noteq> [] \<and> head \<noteq> replicate (length head) CHR ''/''
         then rev (dropWhile (\<lambda>c. c = CHR ''/'') (rev head))
         else head)"

definition path_exists :: "state \<Rightarrow> string \<Rightarrow> bool" where
  \<comment> \<open>\<^verbatim>\<open>os.path.exists\<close>\<close>
  "path_exists st p \<longleftrightarrow> p \<in> dom (files st) \<or> p \<in> dirs st"

definition makedirs :: "string \<Rightarrow> state \<Rightarrow> unit result" where
  \<comment> \<open>\<^verbatim>\<open>os.makedirs(name, exist_ok=True)\<close>: \<^verbatim>\<open>mkdir('')\<close> fails with ENOENT, and
      \<^verbatim>\<open>exist_ok\<close> forgives an existing directory only\<close>
  "makedirs name st =
     (if name = [] then
        (Inl (Exn ''FileNotFoundError'' (''[Errno 2] No such file or directory: '' @ quote name)), st)
      else case faults st (Makedirs name) of
        Some e \<Rightarrow> (Inl e, st)
      | None \<Rightarrow>
          if name \<in> dom (files st) then
            (Inl (Exn ''FileExistsError'' (''[Errno 17] File exists: '' @ quote name)), st)
          else (Inr (), st\<lparr>dirs := insert name (dirs st)\<rparr>))"

definition open_read :: "string \<Rightarrow> state \<Rightarrow> json_text result" where
  \<comment> \<open>\<^verbatim>\<open>open(path, 'r')\<close>, giving the text of the file\<close>
  "open_read p st =
     (case faults st (OpenRead p) of
        Some e \<Rightarrow> (Inl e, st)
      | None \<Rightarrow>
          if p \<in> dirs st then
            (Inl (Exn ''IsADirectoryError'' (''[Errno 21] Is a directory: '' @ quote p)), st)
          else case files st p of
            None \<Rightarrow> (Inl (Exn ''FileNotFoundError''
                       (''[Errno 2] No such file or directory: '' @ quote p)), st)
          | Some txt \<Rightarrow> (Inr txt, st))"

definition json_load :: "string \<Rightarrow> json_text \<Rightarrow> state \<Rightarrow> json result" where
  \<comment> \<open>\<^verbatim>\<open>json.load(f)\<close> on the open file: reads it, then parses\<close>
  "json_load p txt st =
     (case faults st (ReadFrom p) of
        Some e \<Rightarrow> (Inl e, st)
      | None \<Rightarrow> (case txt of Malformed e \<Rightarrow> (Inl e, st) | Document data \<Rightarrow> (Inr data, st)))"

definition open_write :: "string \<Rightarrow> state \<Rightarrow> unit result" where
  \<comment> \<open>\<^verbatim>\<open>open(path, 'w')\<close>: creates or truncates the file\<close>
  "open_write p st =
     (case faults st (OpenWrite p) of
        Some e \<Rightarrow> (Inl e, st)
      | None \<Rightarrow>
          if p \<in> dirs st then
            (Inl (Exn ''IsADirectoryError'' (''[Errno 21] Is a directory: '' @ quote p)), st)
          else (Inr (), st\<lparr>files := (files st)(p \<mapsto> empty_file)\<rparr>))"

definition json_dump_to :: "string \<Rightarrow> (string \<rightharpoonup> string) \<Rightarrow> state \<Rightarrow> unit result" where
  \<comment> \<open>\<^verbatim>\<open>json.dump(d, f, indent=2)\<close> on the file just opened for writing, closed by \<^verbatim>\<open>with\<close>\<close>
  "json_dump_to p d st =
     (case faults st (WriteTo p) of
        Some e \<Rightarrow> (Inl e, st)
      | None \<Rightarrow> (Inr (), st\<lparr>files := (files st)(p \<mapsto> json_dump d)\<rparr>))"

section \<open>\<^verbatim>\<open>SessionManager\<close>\<close>

definition called :: "store_call \<Rightarrow> state \<Rightarrow> state" where
  \<comment> \<open>notes that a method of \<^verbatim>\<open>SessionManager\<close> has been entered\<close>
  "called c st = st\<lparr>entered := entered st @ [c]\<rparr>"


definition load_body :: "state \<Rightarrow> unit result" where
  \<comment> \<open>the \<^verbatim>\<open>try\<close> block of \<^verbatim>\<open>load_from_file\<close>\<close>
  "load_body st =
     (if path_exists st (persistence_path st) then
        case open_read (persistence_path st) st of
          (Inl e, st1) \<Rightarrow> (Inl e, st1)
        | (Inr txt, st1) \<Rightarrow>
            (case json_load (persistence_path st) txt st1 of
               (Inl e, st2) \<Rightarrow> (Inl e, st2)
             | (Inr data, st2) \<Rightarrow>
                 (case items data of
                    Inl e \<Rightarrow> (Inl e, st2)
                  | Inr obj \<Rightarrow>
                      let st3 = st2\<lparr>sessions := map_option py_str \<circ> obj\<rparr>
                      in (Inr (), logger INFO (''Loaded '' @ show_nat (card (dom (sessions st3)))
                                                 @ '' sessions'') st3)))
      else (Inr (), st))"

definition load_from_file :: "state \<Rightarrow> unit result" where
  "load_from_file st =
     (case load_body (called LoadCall st) of
        (Inl e, st1) \<Rightarrow>
          (Inr (), (logger WARNING (''Failed to load sessions: '' @ exn_str e) st1)
                     \<lparr>sessions := Map.empty\<rparr>)
      | (Inr u, st1) \<Rightarrow> (Inr (), st1))"

definition save_body :: "state \<Rightarrow> unit result" where
  \<comment> \<open>the \<^verbatim>\<open>try\<close> block of \<^verbatim>\<open>save_to_file\<close>\<close>
  "save_body st =
     (case makedirs (dirname (persistence_path st)) st of
        (Inl e, st1) \<Rightarrow> (Inl e, st1)
      | (Inr u, st1) \<Rightarrow>
          (case open_write (persistence_path st) st1 of
             (Inl e, st2) \<Rightarrow> (Inl e, st2)
           | (Inr u, st2) \<Rightarrow> json_dump_to (persistence_path st) (sessions st2) st2))"

definition save_to_file :: "state \<Rightarrow> unit result" where
  "save_to_file st =
     (case save_body (called SaveCall st) of
        (Inl e, st1) \<Rightarrow> (Inr (), logger WARNING (''Failed to save sessions: '' @ exn_str e) st1)
      | (Inr u, st1) \<Rightarrow> (Inr (), st1))"

definition load_succeeds :: "state \<Rightarrow> bool" where
  \<comment> \<open>\<^verbatim>\<open>load_from_file\<close>, called in this state, leaves its \<^verbatim>\<open>try\<close> block without an exception\<close>
  "load_succeeds st \<longleftrightarrow> fst (load_body (called LoadCall st)) = Inr ()"

definition save_succeeds :: "state \<Rightarrow> bool" where
  \<comment> \<open>\<^verbatim>\<open>save_to_file\<close>, called in this state, leaves its \<^verbatim>\<open>try\<close> block without an exception\<close>
  "save_succeeds st \<longleftrightarrow> fst (save_body (called SaveCall st)) = Inr ()"

definition setitem :: "string \<Rightarrow> string \<Rightarrow> state \<Rightarrow> state" where
  \<comment> \<open>\<^verbatim>\<open>self._sessions[chat_id] = session_id\<close>\<close>
  "setitem chat_id session_id st = st\<lparr>sessions := (sessions st)(chat_id \<mapsto> session_id)\<rparr>"

definition delitem :: "string \<Rightarrow> state \<Rightarrow> state" where
  \<comment> \<open>\<^verbatim>\<open>del self._sessions[chat_id]\<close>, for a key that is present\<close>
  "delitem chat_id st = st\<lparr>sessions := (sessions st)(chat_id := None)\<rparr>"

definition get_session_id :: "string \<Rightarrow> state \<Rightarrow> string option result" where
  "get_session_id chat_id st =
     (let st1 = called (GetCall chat_id) st in (Inr (sessions st1 chat_id), st1))"

definition set_session_id :: "string \<Rightarrow> string \<Rightarrow> state \<Rightarrow> unit result" where
  "set_session_id chat_id session_id st =
     save_to_file (setitem chat_id session_id (called (SetCall chat_id session_id) st))"

definition clear_session :: "string \<Rightarrow> state \<Rightarrow> unit result" where
  "clear_session chat_id st =
     (let st1 = called (ClearCall chat_id) st
      in if chat_id \<in> dom (sessions st1) then
           save_to_file (delitem chat_id st1)
         else (Inr (), st1))"

section \<open>\<^verbatim>\<open>Config\<close>\<close>

record agent_config =
  cfg_api_key :: string
  cfg_model :: string
  cfg_api_base_url :: "string option"

definition truthy :: "string option \<Rightarrow> bool" where
  \<comment> \<open>Python's truth value of a \<^verbatim>\<open>str\<close> or \<^verbatim>\<open>None\<close>\<close>
  "truthy v \<longleftrightarrow> (case v of None \<Rightarrow> False | Some s \<Rightarrow> s \<noteq> [])"

definition get_agent_config :: "config \<Rightarrow> exn + agent_config" where
  "get_agent_config cls =
     (if truthy (GLM_API_KEY cls) then
        Inr \<lparr>cfg_api_key = the (GLM_API_KEY cls), cfg_model = GLM_MODEL cls,
             cfg_api_base_url = Some (GLM_API_BASE_URL cls)\<rparr>
      else if truthy (ANTHROPIC_API_KEY cls) then
        Inr \<lparr>cfg_api_key = the (ANTHROPIC_API_KEY cls), cfg_model = CLAUDE_MODEL cls,
             cfg_api_base_url = None\<rparr>
      else Inl (Exn ''ValueError''
                 ''No API key configured. Set GLM_API_KEY or ANTHROPIC_API_KEY''))"

section \<open>\<^verbatim>\<open>AgentClient\<close>\<close>

datatype message_content = Str string | Blocks "block list"

datatype message = Message (message_content: message_content)

text \<open>
  An asynchronous generator is modelled by the items it yields, in order, and the way the
  iteration ends: \<open>None\<close> when the generator returns, \<open>Some e\<close> when it raises \<open>e\<close>.
\<close>

type_synonym 'a generated = "'a list \<times> exn option"

definition first_text :: "block list \<Rightarrow> exn + string" where
  \<comment> \<open>\<^verbatim>\<open>response.content[0].text\<close>\<close>
  "first_text blocks =
     (case blocks of
        [] \<Rightarrow> Inl (Exn ''IndexError'' ''list index out of range'')
      | TextBlock t # rest \<Rightarrow> Inr t
      | OtherBlock cls # rest \<Rightarrow> Inl (attribute_error cls ''text''))"

definition query_stream :: "string \<Rightarrow> string option \<Rightarrow> state \<Rightarrow> message generated \<times> state" where
  "query_stream prompt session_id st =
     (let request = \<lparr>model = client_model st, max_tokens = 4096,
                      messages = [(''user'', prompt)]\<rparr>;
          st1 = st\<lparr>api_requests := api_requests st @ [request]\<rparr>;
          text = (case api_respond st request of
                    ApiRaises e \<Rightarrow> Inl e
                  | ApiResponse blocks \<Rightarrow> first_text blocks)
      in case text of
           Inr t \<Rightarrow> (([Message (Str t)], None), st1)
         | Inl e \<Rightarrow> (([Message (Str (''Error: '' @ exn_str e))], None), st1))"

section \<open>\<^verbatim>\<open>FeishuBot\<close>\<close>

text \<open>
  The Lark client object is created on first use and has no state of its own that the
  program reads, so \<^verbatim>\<open>_get_client\<close> does not appear. A coroutine scheduled on the event
  loop is run to its end at the point where it is scheduled: one inbound event is handled
  at a time.
\<close>

definition send_message :: "string \<Rightarrow> string \<Rightarrow> state \<Rightarrow> unit result" where
  "send_message chat_id text st =
     (let escaped_text = escape_lark_text text;
          request = \<lparr>receive_id_type = ''chat_id'', receive_id = chat_id,
                      msg_type = ''text'', content = text_payload escaped_text\<rparr>;
          st1 = st\<lparr>lark_requests := lark_requests st @ [request]\<rparr>
      in case lark_respond st request of
           LarkRaises e \<Rightarrow>
             (Inr (), logger ERROR (''Exception sending message to '' @ chat_id @ '': ''
                                      @ exn_str e) st1)
         | LarkResponse code msg \<Rightarrow>
             if code = 0 then (Inr (), logger DEBUG (''Message sent to chat '' @ chat_id) st1)
             else (Inr (), logger ERROR (''Failed to send message: '' @ msg @ '' (code=''
                                           @ show_int code @ '')'') st1))"

definition extract_text :: "message \<Rightarrow> string" where
  "extract_text message =
     (case message_content message of
        Str s \<Rightarrow> s
      | Blocks blocks \<Rightarrow>
          concat (map (\<lambda>b. case b of TextBlock t \<Rightarrow> t | OtherBlock cls \<Rightarrow> []) blocks))"

definition accumulate :: "message list \<Rightarrow> string" where
  \<comment> \<open>the body of the \<^verbatim>\<open>async for\<close> loop, over the messages received\<close>
  "accumulate msgs =
     foldl (\<lambda>response_text message.
              let text = extract_text message
              in if text \<noteq> [] then response_text @ text else response_text) [] msgs"

definition agent_body :: "string \<Rightarrow> string \<Rightarrow> string option \<Rightarrow> state \<Rightarrow> unit result" where
  \<comment> \<open>the \<^verbatim>\<open>try\<close> block of \<^verbatim>\<open>_process_agent_message\<close>\<close>
  "agent_body chat_id prompt session_id st =
     (case query_stream prompt session_id st of
        ((msgs, Some e), st1) \<Rightarrow> (Inl e, st1)
      | ((msgs, None), st1) \<Rightarrow>
          let response_text = accumulate msgs
          in if response_text \<noteq> [] then send_message chat_id response_text st1
             else (Inr (), st1))"

definition process_agent_message :: "string \<Rightarrow> string \<Rightarrow> state \<Rightarrow> unit result" where
  "process_agent_message chat_id prompt st =
     (case send_message chat_id ''Processing...'' st of
        (Inl e, st1) \<Rightarrow> (Inl e, st1)
      | (Inr u, st1) \<Rightarrow>
          (case get_session_id chat_id st1 of
             (Inl e, st2) \<Rightarrow> (Inl e, st2)
           | (Inr session_id, st2) \<Rightarrow>
               (case agent_body chat_id prompt session_id st2 of
                  (Inl e, st3) \<Rightarrow>
                    send_message chat_id (''Error: '' @ exn_str e)
                      (logger ERROR (''Agent error for chat '' @ chat_id @ '': '' @ exn_str e) st3)
                | (Inr u, st3) \<Rightarrow> (Inr (), st3))))"

definition help_text :: string where
  "help_text =
     ''Disclaude Bot'' @ [CHR 0x0A, CHR 0x0A]
     @ ''Commands:'' @ [CHR 0x0A]
     @ ''/reset - Clear session'' @ [CHR 0x0A]
     @ ''/status - Show status'' @ [CHR 0x0A]
     @ ''/help - Show this help'' @ [CHR 0x0A, CHR 0x0A]
     @ ''Just send a message to interact with agent.''"

definition handle_command :: "string \<Rightarrow> string \<Rightarrow> state \<Rightarrow> unit result" where
  "handle_command chat_id text st =
     (if text = ''/reset'' \<or> text = ''/clear'' then
        (case clear_session chat_id st of
           (Inl e, st1) \<Rightarrow> (Inl e, st1)
         | (Inr u, st1) \<Rightarrow> send_message chat_id ''Session cleared.'' st1)
      else if text = ''/status'' then
        (case get_session_id chat_id st of
           (Inl e, st1) \<Rightarrow> (Inl e, st1)
         | (Inr session_id, st1) \<Rightarrow>
             (case get_agent_config (settings st1) of
                Inl e \<Rightarrow> (Inl e, st1)
              | Inr agent_config \<Rightarrow>
                  send_message chat_id
                    (''Model: '' @ cfg_model agent_config @ [CHR 0x0A] @ ''Session: ''
                       @ (if truthy session_id then ''Active'' else ''None'')) st1))
      else if text = ''/help'' then send_message chat_id help_text st
      else send_message chat_id (''Unknown command: '' @ text) st)"

record event =
  message_chat_id :: string  \<comment> \<open>\<^verbatim>\<open>data.event.message.chat_id\<close>\<close>
  message_type :: string  \<comment> \<open>\<^verbatim>\<open>data.event.message.message_type\<close>\<close>
  message_content_str :: json_text  \<comment> \<open>\<^verbatim>\<open>data.event.message.content\<close>\<close>

definition content_text :: "json_text \<Rightarrow> exn + string" where
  \<comment> \<open>the \<^verbatim>\<open>try\<close> block of the event handler:
      \<^verbatim>\<open>json.loads(content_str).get("text", "").strip()\<close>\<close>
  "content_text txt =
     (case txt of
        Malformed e \<Rightarrow> Inl e
      | Document (JNonObject ty) \<Rightarrow> Inl (attribute_error ty ''get'')
      | Document (JObject obj) \<Rightarrow>
          (case obj ''text'' of
             None \<Rightarrow> Inr (strip [])
           | Some (JString s) \<Rightarrow> Inr (strip s)
           | Some v \<Rightarrow> Inl (attribute_error (type_name v) ''strip'')))"

definition create_task :: "unit result \<Rightarrow> unit result" where
  \<comment> \<open>\<^verbatim>\<open>asyncio.create_task\<close>: an exception of the coroutine ends the task and is not
      raised where the task was scheduled\<close>
  "create_task r = (Inr (), snd r)"

definition handle_message_receive_v1 :: "event \<Rightarrow> state \<Rightarrow> unit result" where
  "handle_message_receive_v1 data st =
     (if \<not> running st then (Inr (), st)
      else
        let st1 = logger INFO (''[Received] chat_id: '' @ message_chat_id data @ '', type: ''
                                 @ message_type data) st
        in if message_type data \<noteq> ''text'' then (Inr (), st1)
           else case content_text (message_content_str data) of
                  Inl e \<Rightarrow>
                    (Inr (), logger ERROR (''[Error] Failed to parse content: '' @ exn_str e) st1)
                | Inr text \<Rightarrow>
                    if text = [] then (Inr (), st1)
                    else if startswith text ''/''
                      then create_task (handle_command (message_chat_id data) text st1)
                    else create_task (process_agent_message (message_chat_id data) text st1))"

definition stop :: "state \<Rightarrow> unit result" where
  "stop st = (Inr (), logger INFO ''Feishu bot stopped.'' (st\<lparr>running := False\<rparr>))"

fun deliver :: "event list \<Rightarrow> state \<Rightarrow> state" where
  \<comment> \<open>\<^verbatim>\<open>self._ws_client.start()\<close>: the WebSocket client hands each inbound event to the
      handler until the connection ends\<close>
  "deliver [] st = st"
| "deliver (data # rest) st = deliver rest (snd (handle_message_receive_v1 data st))"

definition start :: "event list \<Rightarrow> state \<Rightarrow> unit result" where
  \<comment> \<open>\<^verbatim>\<open>FeishuBot.start\<close>, for the events that arrive while the client is connected\<close>
  "start events st =
     (case load_from_file st of
        (Inl e, st1) \<Rightarrow> (Inl e, st1)
      | (Inr u, st1) \<Rightarrow>
          let st2 = st1\<lparr>running := True\<rparr>
          in case get_agent_config (settings st2) of
               Inl e \<Rightarrow> (Inl e, st2)
             | Inr agent_config \<Rightarrow>
                 let st3 = logger INFO (''Feishu bot started (model: '' @ cfg_model agent_config
                                          @ '')'') st2;
                     st4 = (deliver events st3)\<lparr>running := False\<rparr>
                 in stop st4)"

section \<open>\<^verbatim>\<open>DiscordBot\<close>\<close>

text \<open>
  \<^verbatim>\<open>discord.py\<close> looks up the word after the command prefix among the registered
  commands; when there is none of that name it raises \<^verbatim>\<open>CommandNotFound\<close> and hands it
  to \<^verbatim>\<open>on_command_error\<close>, with the context of the message.
\<close>

datatype command_error =
    CommandNotFound string  \<comment> \<open>with \<^verbatim>\<open>str(error)\<close>\<close>
  | MissingRequiredArgument string string  \<comment> \<open>with \<^verbatim>\<open>error.param.name\<close> and \<^verbatim>\<open>str(error)\<close>\<close>
  | OtherCommandError string  \<comment> \<open>any other exception, with \<^verbatim>\<open>str(error)\<close>\<close>

record discord =
  channel_sent :: "string list"  \<comment> \<open>what \<^verbatim>\<open>ctx.send\<close> has sent to the channel, oldest first\<close>
  printed :: "string list"  \<comment> \<open>the lines written by \<^verbatim>\<open>print\<close>\<close>

definition on_command_error :: "command_error \<Rightarrow> discord \<Rightarrow> discord" where
  "on_command_error error ctx =
     (case error of
        CommandNotFound s \<Rightarrow> ctx
      | MissingRequiredArgument name s \<Rightarrow>
          ctx\<lparr>channel_sent := channel_sent ctx @ [''Missing required argument: '' @ name]\<rparr>
      | OtherCommandError s \<Rightarrow>
          ctx\<lparr>printed := printed ctx @ [''Error: '' @ s],
              channel_sent := channel_sent ctx
                @ [''An error occurred while processing that command.'']\<rparr>)"

section \<open>Observations and sample values\<close>

definition set_calls :: "state \<Rightarrow> store_call list" where
  \<comment> \<open>the calls of \<^verbatim>\<open>set_session_id\<close> made so far\<close>
  "set_calls st = filter (\<lambda>c. case c of SetCall k v \<Rightarrow> True | _ \<Rightarrow> False) (entered st)"

definition fresh_state :: state where
  \<comment> \<open>a process that has just started with the default configuration and one API key:
      nothing in memory, nothing on disk, no faults, services that answer every request\<close>
  "fresh_state =
     \<lparr>sessions = Map.empty,
      persistence_path = ''./sessions.json'',
      entered = [],
      running = False,
      client_model = ''claude-3-5-sonnet-20241022'',
      settings = \<lparr>GLM_API_KEY = None, GLM_MODEL = ''glm-4.7'',
                   GLM_API_BASE_URL = ''https://open.bigmodel.cn/api/anthropic'',
                   ANTHROPIC_API_KEY = Some ''sk-test'',
                   CLAUDE_MODEL = ''claude-3-5-sonnet-20241022''\<rparr>,
      files = Map.empty,
      dirs = {},
      faults = (\<lambda>op. None),
      log = [],
      lark_requests = [],
      lark_respond = (\<lambda>request. LarkResponse 0 ''success''),
      api_requests = [],
      api_respond = (\<lambda>request. ApiResponse [TextBlock ''hi there''])\<rparr>"

definition read_only :: "fs_op \<Rightarrow> exn option" where
  \<comment> \<open>a file system that refuses to open any file for writing\<close>
  "read_only op =
     (case op of
        OpenWrite p \<Rightarrow> Some (Exn ''PermissionError'' (''[Errno 13] Permission denied: '' @ quote p))
      | _ \<Rightarrow> None)"

definition escape_char :: "char \<Rightarrow> string" where
  \<comment> \<open>what the four replacements of \<^verbatim>\<open>_escape_lark_text\<close> make of one character\<close>
  "escape_char c =
     (if c = CHR 0x5C then [CHR 0x5C, CHR 0x5C]
      else if c = CHR 0x22 then [CHR 0x5C, CHR 0x22]
      else if c = CHR 0x0A then [CHR 0x5C, CHR ''n'']
      else if c = CHR 0x0D then [CHR 0x5C, CHR ''r'']
      else [c])"

definition text_event :: "string \<Rightarrow> string \<Rightarrow> event" where
  \<comment> \<open>the event of a text message: its content is the JSON object \<^verbatim>\<open>{"text": t}\<close>\<close>
  "text_event c t =
     \<lparr>message_chat_id = c, message_type = ''text'',
      message_content_str = Document (JObject [''text'' \<mapsto> JString t])\<rparr>"

section \<open>The session store\<close>

lemma save_body_cases:
  "(\<exists>e st1. save_body st = (Inl e, st1) \<and> sessions st1 = sessions st \<and> log st1 = log st
        \<and> persistence_path st1 = persistence_path st \<and> entered st1 = entered st)
   \<or> (\<exists>st1. save_body st = (Inr (), st1) \<and> sessions st1 = sessions st \<and> log st1 = log st
        \<and> persistence_path st1 = persistence_path st \<and> entered st1 = entered st
        \<and> files st1 (persistence_path st) = Some (json_dump (sessions st)))"
  by (auto simp: save_body_def makedirs_def open_write_def json_dump_to_def
           split: option.splits)

lemma save_to_file_returns: "fst (save_to_file st) = Inr ()"
  by (auto simp: save_to_file_def split: prod.splits sum.splits)

lemma save_to_file_sessions: "sessions (snd (save_to_file st)) = sessions st"
  using save_body_cases [of "called SaveCall st"]
  by (auto simp: save_to_file_def logger_def called_def)

lemma save_to_file_path: "persistence_path (snd (save_to_file st)) = persistence_path st"
  using save_body_cases [of "called SaveCall st"]
  by (auto simp: save_to_file_def logger_def called_def)


lemma save_to_file_failed:
  "\<not> save_succeeds st \<Longrightarrow>
     \<exists>e. fst (save_body (called SaveCall st)) = Inl e \<and>
         log (snd (save_to_file st)) = log st @ [Log WARNING (''Failed to save sessions: '' @ exn_str e)]"
  using save_body_cases [of "called SaveCall st"]
  by (auto simp: save_to_file_def save_succeeds_def called_def logger_def)



lemma dirname_default: "dirname ''./sessions.json'' = ''.''"
  by (simp add: dirname_def)

lemma set_in_fresh_state:
  "set_session_id ''c1'' ''s1'' fresh_state =
     (Inr (), fresh_state\<lparr>sessions := [''c1'' \<mapsto> ''s1''],
                entered := [SetCall ''c1'' ''s1'', SaveCall],
                files := [''./sessions.json'' \<mapsto> json_dump [''c1'' \<mapsto> ''s1'']],
                dirs := {''.''}\<rparr>)"
  by (simp add: set_session_id_def save_to_file_def save_body_def setitem_def called_def
        fresh_state_def dirname_default makedirs_def open_write_def json_dump_to_def)



lemma set_session_id_memory:
  "sessions (snd (set_session_id chat_id session_id st)) = (sessions st)(chat_id \<mapsto> session_id)"
  by (simp add: set_session_id_def save_to_file_sessions setitem_def called_def)

text \<open>
  C2 (as the code has it). \<^verbatim>\<open>set_session_id\<close> never signals an error to its caller. When
  writing the mapping to disk fails, \<^verbatim>\<open>save_to_file\<close> catches the exception and logs a
  warning; the call returns normally, and in either case the mapping in memory holds the
  new session id.
\<close>

theorem set_never_raises:
  "fst (set_session_id chat_id session_id st) = Inr ()
   \<and> sessions (snd (set_session_id chat_id session_id st)) chat_id = Some session_id
   \<and> (\<not> save_succeeds (setitem chat_id session_id (called (SetCall chat_id session_id) st))
        \<longrightarrow> (\<exists>e. log (snd (set_session_id chat_id session_id st))
                   = log st @ [Log WARNING (''Failed to save sessions: '' @ exn_str e)]))"
proof (intro conjI impI)
  show "fst (set_session_id chat_id session_id st) = Inr ()"
    by (simp add: set_session_id_def save_to_file_returns)
  show "sessions (snd (set_session_id chat_id session_id st)) chat_id = Some session_id"
    by (simp add: set_session_id_memory)
  assume "\<not> save_succeeds (setitem chat_id session_id (called (SetCall chat_id session_id) st))"
  from save_to_file_failed [OF this]
  show "\<exists>e. log (snd (set_session_id chat_id session_id st))
               = log st @ [Log WARNING (''Failed to save sessions: '' @ exn_str e)]"
    by (auto simp: set_session_id_def setitem_def called_def)
qed

lemma set_on_read_only:
  "set_session_id ''c1'' ''s1'' (fresh_state\<lparr>faults := read_only\<rparr>) =
     (Inr (), fresh_state\<lparr>faults := read_only, sessions := [''c1'' \<mapsto> ''s1''],
                entered := [SetCall ''c1'' ''s1'', SaveCall], dirs := {''.''},
                log := [Log WARNING (''Failed to save sessions: [Errno 13] Permission denied: ''
                                       @ quote ''./sessions.json'')]\<rparr>)"
  by (simp add: set_session_id_def save_to_file_def save_body_def setitem_def called_def
        fresh_state_def dirname_default makedirs_def open_write_def read_only_def logger_def)

lemma save_fails_on_read_only:
  "\<not> save_succeeds (setitem ''c1'' ''s1'' (called (SetCall ''c1'' ''s1'')
        (fresh_state\<lparr>faults := read_only\<rparr>)))"
  by (simp add: save_succeeds_def save_body_def setitem_def called_def
        fresh_state_def dirname_default makedirs_def open_write_def read_only_def)

text \<open>
  On a disk that cannot be written the save fails, and \<^verbatim>\<open>set_session_id\<close> still returns
  normally: a failed persist is not signalled.
\<close>

theorem set_signals_error_counterexample:
  "\<not> save_succeeds (setitem ''c1'' ''s1'' (called (SetCall ''c1'' ''s1'')
        (fresh_state\<lparr>faults := read_only\<rparr>)))
   \<and> fst (set_session_id ''c1'' ''s1'' (fresh_state\<lparr>faults := read_only\<rparr>)) = Inr ()"
  by (simp add: save_fails_on_read_only set_on_read_only)

theorem set_never_raises_witness:
  "\<not> save_succeeds (setitem ''c1'' ''s1'' (called (SetCall ''c1'' ''s1'')
        (fresh_state\<lparr>faults := read_only\<rparr>)))
   \<and> (\<exists>e. log (snd (set_session_id ''c1'' ''s1'' (fresh_state\<lparr>faults := read_only\<rparr>)))
            = log (fresh_state\<lparr>faults := read_only\<rparr>)
              @ [Log WARNING (''Failed to save sessions: '' @ exn_str e)])"
  using save_fails_on_read_only
    set_never_raises [of "''c1''" "''s1''" "fresh_state\<lparr>faults := read_only\<rparr>"]
  by simp

lemma dirname_bare: "CHR ''/'' \<notin> set p \<Longrightarrow> dirname p = []"
  by (auto simp: dirname_def dropWhile_eq_Nil_conv)

lemma save_to_file_bare:
  "CHR ''/'' \<notin> set (persistence_path st) \<Longrightarrow>
     save_to_file st =
       (Inr (), logger WARNING (''Failed to save sessions: [Errno 2] No such file or directory: ''
                                  @ quote []) (called SaveCall st))"
  by (simp add: save_to_file_def save_body_def called_def dirname_bare makedirs_def)

text \<open>
  C10. When the persistence path has no directory part, every save fails at the creation
  of the directory and the failure is swallowed: \<^verbatim>\<open>set_session_id\<close> and \<^verbatim>\<open>clear_session\<close>
  return normally and update the mapping in memory, and no file is written.
\<close>

theorem bare_filename_never_saved:
  assumes "CHR ''/'' \<notin> set (persistence_path st)"
  shows "(\<not> save_succeeds st \<and> fst (save_to_file st) = Inr ()
            \<and> files (snd (save_to_file st)) = files st)
       \<and> (fst (set_session_id chat_id session_id st) = Inr ()
            \<and> sessions (snd (set_session_id chat_id session_id st))
                = (sessions st)(chat_id \<mapsto> session_id)
            \<and> files (snd (set_session_id chat_id session_id st)) = files st)
       \<and> (fst (clear_session chat_id st) = Inr ()
            \<and> sessions (snd (clear_session chat_id st)) = (sessions st)(chat_id := None)
            \<and> files (snd (clear_session chat_id st)) = files st)"
proof -
  have "\<not> save_succeeds st"
    using assms by (simp add: save_succeeds_def save_body_def called_def dirname_bare makedirs_def)
  moreover have "fst (save_to_file st) = Inr ()" "files (snd (save_to_file st)) = files st"
    using assms by (simp_all add: save_to_file_bare logger_def called_def)
  moreover have "fst (set_session_id chat_id session_id st) = Inr ()"
    "sessions (snd (set_session_id chat_id session_id st)) = (sessions st)(chat_id \<mapsto> session_id)"
    "files (snd (set_session_id chat_id session_id st)) = files st"
    using assms
    by (simp_all add: set_session_id_def save_to_file_bare logger_def called_def setitem_def)
  moreover have "fst (clear_session chat_id st) = Inr ()"
    "sessions (snd (clear_session chat_id st)) = (sessions st)(chat_id := None)"
    "files (snd (clear_session chat_id st)) = files st"
    using assms
    by (auto simp: clear_session_def save_to_file_bare logger_def called_def delitem_def
          Let_def fun_eq_iff)
  ultimately show ?thesis by simp
qed

theorem bare_filename_never_saved_witness:
  "CHR ''/'' \<notin> set (persistence_path (fresh_state\<lparr>persistence_path := ''sessions.json''\<rparr>))
   \<and> sessions (snd (set_session_id ''c1'' ''s1'' (fresh_state\<lparr>persistence_path := ''sessions.json''\<rparr>)))
       = [''c1'' \<mapsto> ''s1'']
   \<and> files (snd (set_session_id ''c1'' ''s1'' (fresh_state\<lparr>persistence_path := ''sessions.json''\<rparr>)))
       = Map.empty"
proof -
  have h: "CHR ''/'' \<notin> set (persistence_path (fresh_state\<lparr>persistence_path := ''sessions.json''\<rparr>))"
    by simp
  show ?thesis
    using h bare_filename_never_saved [OF h, of "''c1''" "''s1''"]
    by (simp add: fresh_state_def)
qed

text \<open>
  C8. Clearing a conversation id that is not in the mapping returns normally and changes
  neither the mapping nor the disk: the persisted file keeps every entry it had.
\<close>

theorem clear_absent_is_noop:
  assumes "chat_id \<notin> dom (sessions st)"
  shows "fst (clear_session chat_id st) = Inr ()
       \<and> sessions (snd (clear_session chat_id st)) = sessions st
       \<and> files (snd (clear_session chat_id st)) = files st
       \<and> dirs (snd (clear_session chat_id st)) = dirs st
       \<and> log (snd (clear_session chat_id st)) = log st"
  using assms by (simp add: clear_session_def called_def Let_def)

theorem clear_absent_is_noop_witness:
  "''c1'' \<notin> dom (sessions (snd (set_session_id ''c2'' ''s2'' fresh_state)))
   \<and> files (snd (clear_session ''c1'' (snd (set_session_id ''c2'' ''s2'' fresh_state))))
        ''./sessions.json'' = Some (json_dump [''c2'' \<mapsto> ''s2''])"
proof -
  have st: "set_session_id ''c2'' ''s2'' fresh_state =
     (Inr (), fresh_state\<lparr>sessions := [''c2'' \<mapsto> ''s2''],
                entered := [SetCall ''c2'' ''s2'', SaveCall],
                files := [''./sessions.json'' \<mapsto> json_dump [''c2'' \<mapsto> ''s2'']],
                dirs := {''.''}\<rparr>)"
    by (simp add: set_session_id_def save_to_file_def save_body_def setitem_def called_def
          fresh_state_def dirname_default makedirs_def open_write_def json_dump_to_def)
  have h: "''c1'' \<notin> dom (sessions (snd (set_session_id ''c2'' ''s2'' fresh_state)))"
    unfolding st by simp
  show ?thesis
    using h clear_absent_is_noop [OF h] unfolding st by simp
qed

lemma load_body_memory:
  "fst (load_body st) = Inl e \<Longrightarrow> log (snd (load_body st)) = log st"
  by (auto simp: load_body_def open_read_def json_load_def items_def logger_def
      split: if_splits option.splits prod.splits sum.splits json_text.splits json.splits)

lemma load_from_file_returns: "fst (load_from_file st) = Inr ()"
  by (auto simp: load_from_file_def split: prod.splits sum.splits)

lemma load_missing:
  "\<not> path_exists st (persistence_path st) \<Longrightarrow>
     load_from_file st = (Inr (), called LoadCall st)"
  by (simp add: load_from_file_def load_body_def called_def path_exists_def)

lemma load_failed:
  assumes "\<not> load_succeeds st"
  shows "sessions (snd (load_from_file st)) = Map.empty
       \<and> (\<exists>e. log (snd (load_from_file st))
                 = log st @ [Log WARNING (''Failed to load sessions: '' @ exn_str e)])"
proof -
  obtain r st1 where b: "load_body (called LoadCall st) = (r, st1)"
    by (cases "load_body (called LoadCall st)")
  with assms obtain e where r: "r = Inl e"
    by (cases r) (auto simp: load_succeeds_def)
  have "log st1 = log st"
    using load_body_memory [of "called LoadCall st" e] b r by (simp add: called_def)
  then show ?thesis
    using b r by (auto simp: load_from_file_def logger_def)
qed

lemma load_object:
  assumes "files st (persistence_path st) = Some (Document (JObject obj))"
    and "persistence_path st \<notin> dirs st"
    and "faults st (OpenRead (persistence_path st)) = None"
    and "faults st (ReadFrom (persistence_path st)) = None"
  shows "sessions (snd (load_from_file st)) = map_option py_str \<circ> obj
       \<and> log (snd (load_from_file st))
           = log st @ [Log INFO (''Loaded '' @ show_nat (card (dom obj)) @ '' sessions'')]"
  using assms
  by (simp add: load_from_file_def load_body_def called_def path_exists_def open_read_def
        json_load_def items_def logger_def domI dom_map_option_comp)

lemma load_not_object:
  assumes "files st (persistence_path st) = Some (Malformed e)
         \<or> files st (persistence_path st) = Some (Document (JNonObject ty))"
  shows "path_exists st (persistence_path st) \<and> \<not> load_succeeds st"
  using assms
  by (auto simp: load_succeeds_def load_body_def called_def path_exists_def open_read_def
        json_load_def items_def split: option.splits)

text \<open>
  C6 (as the code has it). \<^verbatim>\<open>load_from_file\<close> never raises. A missing file leaves the
  mapping as it is (empty for a new manager) and logs nothing. A file that cannot be read,
  is not JSON, or whose top-level value is not an object gives an empty mapping and a
  logged warning. A JSON object is accepted whatever its values are: each value is stored
  as the text \<^verbatim>\<open>str()\<close> gives for it, and no warning is logged.
\<close>

theorem load_never_raises:
  "fst (load_from_file st) = Inr ()
   \<and> (\<not> path_exists st (persistence_path st) \<longrightarrow>
        sessions (snd (load_from_file st)) = sessions st
        \<and> log (snd (load_from_file st)) = log st)
   \<and> (files st (persistence_path st) = Some (Malformed e)
        \<or> files st (persistence_path st) = Some (Document (JNonObject ty))
        \<or> path_exists st (persistence_path st) \<and> \<not> load_succeeds st \<longrightarrow>
        sessions (snd (load_from_file st)) = Map.empty
        \<and> (\<exists>e'. log (snd (load_from_file st))
                  = log st @ [Log WARNING (''Failed to load sessions: '' @ exn_str e')]))
   \<and> (files st (persistence_path st) = Some (Document (JObject obj))
        \<and> persistence_path st \<notin> dirs st
        \<and> faults st (OpenRead (persistence_path st)) = None
        \<and> faults st (ReadFrom (persistence_path st)) = None \<longrightarrow>
        sessions (snd (load_from_file st)) = map_option py_str \<circ> obj
        \<and> log (snd (load_from_file st))
            = log st @ [Log INFO (''Loaded '' @ show_nat (card (dom obj)) @ '' sessions'')])"
proof (intro conjI impI)
  show "fst (load_from_file st) = Inr ()"
    by (rule load_from_file_returns)
next
  assume "\<not> path_exists st (persistence_path st)"
  then show "sessions (snd (load_from_file st)) = sessions st"
    and "log (snd (load_from_file st)) = log st"
    by (simp_all add: load_missing called_def)
next
  assume a: "files st (persistence_path st) = Some (Malformed e)
        \<or> files st (persistence_path st) = Some (Document (JNonObject ty))
        \<or> path_exists st (persistence_path st) \<and> \<not> load_succeeds st"
  then have "\<not> load_succeeds st"
    using load_not_object [of st e ty] by blast
  from load_failed [OF this]
  show "sessions (snd (load_from_file st)) = Map.empty"
    and "\<exists>e'. log (snd (load_from_file st))
                  = log st @ [Log WARNING (''Failed to load sessions: '' @ exn_str e')]"
    by simp_all
next
  assume a: "files st (persistence_path st) = Some (Document (JObject obj))
        \<and> persistence_path st \<notin> dirs st
        \<and> faults st (OpenRead (persistence_path st)) = None
        \<and> faults st (ReadFrom (persistence_path st)) = None"
  then show "sessions (snd (load_from_file st)) = map_option py_str \<circ> obj"
    and "log (snd (load_from_file st))
            = log st @ [Log INFO (''Loaded '' @ show_nat (card (dom obj)) @ '' sessions'')]"
    using load_object [of st obj] by simp_all
qed

lemma show_nat_1: "show_nat (Suc 0) = ''1''"
  by code_simp

lemma show_int_1: "show_int 1 = ''1''"
  by code_simp

text \<open>
  A file holding \<^verbatim>\<open>{"a": 1}\<close> is not a string-to-string object, yet it is loaded as the
  mapping from \<^verbatim>\<open>a\<close> to \<^verbatim>\<open>1\<close>, without a warning.
\<close>

theorem non_string_values_counterexample:
  "sessions (snd (load_from_file
      (fresh_state\<lparr>files := [''./sessions.json'' \<mapsto> Document (JObject [''a'' \<mapsto> JInt 1])]\<rparr>)))
     = [''a'' \<mapsto> ''1'']
   \<and> log (snd (load_from_file
      (fresh_state\<lparr>files := [''./sessions.json'' \<mapsto> Document (JObject [''a'' \<mapsto> JInt 1])]\<rparr>)))
     = [Log INFO ''Loaded 1 sessions'']"
  by (simp add: load_from_file_def load_body_def called_def path_exists_def open_read_def
        json_load_def items_def logger_def fresh_state_def show_nat_1 show_int_1 fun_eq_iff)

theorem load_never_raises_witness:
  "\<not> path_exists fresh_state (persistence_path fresh_state)
   \<and> sessions (snd (load_from_file fresh_state)) = Map.empty
   \<and> files (fresh_state\<lparr>files := [''./sessions.json'' \<mapsto> Document (JNonObject ''list'')]\<rparr>)
        (persistence_path (fresh_state\<lparr>files := [''./sessions.json'' \<mapsto> Document (JNonObject ''list'')]\<rparr>))
       = Some (Document (JNonObject ''list''))
   \<and> sessions (snd (load_from_file
        (fresh_state\<lparr>files := [''./sessions.json'' \<mapsto> Document (JNonObject ''list'')]\<rparr>))) = Map.empty
   \<and> files (fresh_state\<lparr>files := [''./sessions.json'' \<mapsto> Document (JObject [''a'' \<mapsto> JString ''b''])]\<rparr>)
        (persistence_path fresh_state) = Some (Document (JObject [''a'' \<mapsto> JString ''b'']))
   \<and> sessions (snd (load_from_file
        (fresh_state\<lparr>files := [''./sessions.json'' \<mapsto> Document (JObject [''a'' \<mapsto> JString ''b''])]\<rparr>)))
       = map_option py_str \<circ> [''a'' \<mapsto> JString ''b'']"
proof -
  let ?bad = "fresh_state\<lparr>files := [''./sessions.json'' \<mapsto> Document (JNonObject ''list'')]\<rparr>"
  let ?good = "fresh_state\<lparr>files := [''./sessions.json'' \<mapsto> Document (JObject [''a'' \<mapsto> JString ''b''])]\<rparr>"
  have p: "persistence_path fresh_state = ''./sessions.json''" "files fresh_state = Map.empty"
    "dirs fresh_state = {}" "faults fresh_state = (\<lambda>op. None)" "sessions fresh_state = Map.empty"
    by (simp_all add: fresh_state_def)
  have 1: "\<not> path_exists fresh_state (persistence_path fresh_state)"
    by (simp add: path_exists_def p)
  have 2: "files ?bad (persistence_path ?bad) = Some (Document (JNonObject ''list''))"
    by (simp add: p)
  have 3: "files ?good (persistence_path ?good) = Some (Document (JObject [''a'' \<mapsto> JString ''b'']))
        \<and> persistence_path ?good \<notin> dirs ?good
        \<and> faults ?good (OpenRead (persistence_path ?good)) = None
        \<and> faults ?good (ReadFrom (persistence_path ?good)) = None"
    by (simp add: p)
  show ?thesis
    using 1 2 3
      load_never_raises [of fresh_state "Exn [] []" "[]" Map.empty]
      load_never_raises [of ?bad "Exn [] []" "''list''" Map.empty]
      load_never_raises [of ?good "Exn [] []" "[]" "[''a'' \<mapsto> JString ''b'']"]
    by (simp add: p)
qed

section \<open>The outbound payload\<close>

lemma str_replace_char:
  "str_replace [x] new s = concat (map (\<lambda>c. if c = x then new else [c]) s)"
  by (induction s) auto

lemma escape_lark_text_Nil: "escape_lark_text [] = []"
  by (simp add: escape_lark_text_def)

lemma escape_lark_text_Cons:
  "escape_lark_text (c # cs) = escape_char c @ escape_lark_text cs"
  by (simp add: escape_lark_text_def str_replace_char escape_char_def)

lemma json_string_body_escaped:
  assumes "\<forall>c\<in>set s. 0x20 \<le> (of_char c :: nat) \<or> c = CHR 0x0A \<or> c = CHR 0x0D"
  shows "json_string_body (escape_lark_text s @ CHR 0x22 # rest) = Some (s, rest)"
  using assms
proof (induction s)
  case Nil
  then show ?case by (simp add: escape_lark_text_Nil)
next
  case (Cons c cs)
  then have ih: "json_string_body (escape_lark_text cs @ CHR 0x22 # rest) = Some (cs, rest)"
    and c: "0x20 \<le> (of_char c :: nat) \<or> c = CHR 0x0A \<or> c = CHR 0x0D"
    by simp_all
  show ?case
    using c ih
    by (auto simp: escape_lark_text_Cons escape_char_def json_escape_def)
qed

text \<open>
  C9. For a text with no character below U+0020 other than newline and carriage return,
  the payload built around \<^verbatim>\<open>_escape_lark_text(text)\<close> is a JSON object whose
  \<^verbatim>\<open>text\<close> member reads back as exactly that text.
\<close>

theorem payload_round_trip:
  assumes "\<forall>c\<in>set text. 0x20 \<le> (of_char c :: nat) \<or> c = CHR 0x0A \<or> c = CHR 0x0D"
  shows "payload_text (text_payload (escape_lark_text text)) = Some text"
  using json_string_body_escaped [OF assms, of "''}''"]
  by (simp add: payload_text_def text_payload_def startswith_def)


lemma payload_example:
  "text_payload (escape_lark_text [CHR ''a'', CHR 0x22, CHR 0x5C, CHR 0x0A, CHR 0x0D, CHR ''b''])
     = [CHR ''{'', CHR 0x22, CHR ''t'', CHR ''e'', CHR ''x'', CHR ''t'', CHR 0x22, CHR '':'',
        CHR 0x22, CHR ''a'', CHR 0x5C, CHR 0x22, CHR 0x5C, CHR 0x5C, CHR 0x5C, CHR ''n'',
        CHR 0x5C, CHR ''r'', CHR ''b'', CHR 0x22, CHR ''}'']"
  by code_simp

lemma payload_tab_rejected:
  "payload_text (text_payload (escape_lark_text [CHR ''a'', CHR 0x09, CHR ''b''])) = None"
  by code_simp

theorem payload_round_trip_witness:
  "payload_text (text_payload (escape_lark_text
      [CHR ''a'', CHR 0x22, CHR 0x5C, CHR 0x0A, CHR 0x0D, CHR ''b'']))
     = Some [CHR ''a'', CHR 0x22, CHR 0x5C, CHR 0x0A, CHR 0x0D, CHR ''b'']"
proof -
  have h: "\<forall>c\<in>set [CHR ''a'', CHR 0x22, CHR 0x5C, CHR 0x0A, CHR 0x0D, CHR ''b''].
       0x20 \<le> (of_char c :: nat) \<or> c = CHR 0x0A \<or> c = CHR 0x0D"
    by simp
  show ?thesis
    using payload_round_trip [OF h] by simp
qed

section \<open>The bot\<close>

lemma strip_reset: "strip ''/reset'' = ''/reset''"
  by code_simp

lemma set_calls_called:
  "set_calls (called c st) = (case c of SetCall k v \<Rightarrow> set_calls st @ [c] | _ \<Rightarrow> set_calls st)"
  by (cases c) (simp_all add: set_calls_def called_def)

lemma called_fields:
  "sessions (called c st) = sessions st" "persistence_path (called c st) = persistence_path st"
  "running (called c st) = running st" "settings (called c st) = settings st"
  "client_model (called c st) = client_model st" "files (called c st) = files st"
  "dirs (called c st) = dirs st" "faults (called c st) = faults st" "log (called c st) = log st"
  "lark_requests (called c st) = lark_requests st" "lark_respond (called c st) = lark_respond st"
  "api_requests (called c st) = api_requests st" "api_respond (called c st) = api_respond st"
  "entered (called c st) = entered st @ [c]"
  by (simp_all add: called_def)

lemma set_calls_cong: "entered st1 = entered st \<Longrightarrow> set_calls st1 = set_calls st"
  by (simp add: set_calls_def)

lemma save_to_file_others:
  "entered (snd (save_to_file st)) = entered st @ [SaveCall]
   \<and> running (snd (save_to_file st)) = running st
   \<and> settings (snd (save_to_file st)) = settings st
   \<and> client_model (snd (save_to_file st)) = client_model st
   \<and> lark_requests (snd (save_to_file st)) = lark_requests st
   \<and> lark_respond (snd (save_to_file st)) = lark_respond st
   \<and> api_requests (snd (save_to_file st)) = api_requests st
   \<and> api_respond (snd (save_to_file st)) = api_respond st"
  by (auto simp: save_to_file_def save_body_def makedirs_def open_write_def json_dump_to_def
        logger_def called_def split: option.splits)

lemma load_from_file_others:
  "entered (snd (load_from_file st)) = entered st @ [LoadCall]
   \<and> running (snd (load_from_file st)) = running st
   \<and> settings (snd (load_from_file st)) = settings st
   \<and> client_model (snd (load_from_file st)) = client_model st
   \<and> lark_requests (snd (load_from_file st)) = lark_requests st
   \<and> lark_respond (snd (load_from_file st)) = lark_respond st
   \<and> api_requests (snd (load_from_file st)) = api_requests st
   \<and> api_respond (snd (load_from_file st)) = api_respond st"
  by (auto simp: load_from_file_def load_body_def open_read_def json_load_def items_def
        logger_def called_def split: option.splits json_text.splits json.splits)

lemma clear_session_returns: "fst (clear_session chat_id st) = Inr ()"
  by (simp add: clear_session_def Let_def save_to_file_returns)

lemma clear_session_others:
  "sessions (snd (clear_session chat_id st)) = (sessions st)(chat_id := None)
   \<and> set_calls (snd (clear_session chat_id st)) = set_calls st
   \<and> running (snd (clear_session chat_id st)) = running st
   \<and> settings (snd (clear_session chat_id st)) = settings st
   \<and> client_model (snd (clear_session chat_id st)) = client_model st
   \<and> lark_requests (snd (clear_session chat_id st)) = lark_requests st
   \<and> lark_respond (snd (clear_session chat_id st)) = lark_respond st
   \<and> api_requests (snd (clear_session chat_id st)) = api_requests st
   \<and> api_respond (snd (clear_session chat_id st)) = api_respond st"
  by (auto simp: clear_session_def Let_def save_to_file_others save_to_file_sessions
        delitem_def called_def set_calls_def fun_eq_iff)

lemma send_message_returns: "fst (send_message chat_id t st) = Inr ()"
  by (simp add: send_message_def Let_def split: lark_outcome.splits)

lemma send_message_others:
  "lark_requests (snd (send_message chat_id t st))
     = lark_requests st @ [\<lparr>receive_id_type = ''chat_id'', receive_id = chat_id,
                             msg_type = ''text'', content = text_payload (escape_lark_text t)\<rparr>]
   \<and> sessions (snd (send_message chat_id t st)) = sessions st
   \<and> entered (snd (send_message chat_id t st)) = entered st
   \<and> running (snd (send_message chat_id t st)) = running st
   \<and> settings (snd (send_message chat_id t st)) = settings st
   \<and> client_model (snd (send_message chat_id t st)) = client_model st
   \<and> lark_respond (snd (send_message chat_id t st)) = lark_respond st
   \<and> api_requests (snd (send_message chat_id t st)) = api_requests st
   \<and> api_respond (snd (send_message chat_id t st)) = api_respond st"
  by (simp add: send_message_def Let_def logger_def split: lark_outcome.splits)

lemma send_message_pair:
  "send_message chat_id t st = (Inr (), snd (send_message chat_id t st))"
  using send_message_returns [of chat_id t st] by (cases "send_message chat_id t st") simp

lemma clear_session_pair:
  "clear_session chat_id st = (Inr (), snd (clear_session chat_id st))"
  using clear_session_returns [of chat_id st] by (cases "clear_session chat_id st") simp

lemma handle_command_reset:
  "t = ''/reset'' \<or> t = ''/clear'' \<Longrightarrow>
   handle_command chat_id t st =
     send_message chat_id ''Session cleared.'' (snd (clear_session chat_id st))"
  unfolding handle_command_def by (subst clear_session_pair) simp

lemma handle_command_status:
  "handle_command chat_id ''/status'' st =
     (case get_agent_config (settings st) of
        Inl e \<Rightarrow> (Inl e, called (GetCall chat_id) st)
      | Inr agent_config \<Rightarrow>
          send_message chat_id
            (''Model: '' @ cfg_model agent_config @ [CHR 0x0A] @ ''Session: ''
               @ (if truthy (sessions st chat_id) then ''Active'' else ''None''))
            (called (GetCall chat_id) st))"
  by (simp add: handle_command_def get_session_id_def Let_def called_fields
        split: sum.splits)

lemma handle_command_help:
  "handle_command chat_id ''/help'' st = send_message chat_id help_text st"
  by (simp add: handle_command_def)

lemma handle_command_unknown:
  assumes "t \<noteq> ''/reset''" "t \<noteq> ''/clear''" "t \<noteq> ''/status''" "t \<noteq> ''/help''"
  shows "handle_command chat_id t st = send_message chat_id (''Unknown command: '' @ t) st"
  using assms by (simp add: handle_command_def)

lemma set_calls_send_message: "set_calls (snd (send_message c x s)) = set_calls s"
  by (rule set_calls_cong) (simp add: send_message_others)

lemma handle_command_others:
  "set_calls (snd (handle_command chat_id t st)) = set_calls st
   \<and> api_requests (snd (handle_command chat_id t st)) = api_requests st"
proof -
  consider "t = ''/reset'' \<or> t = ''/clear''" | "t = ''/status''" | "t = ''/help''"
    | "t \<noteq> ''/reset''" "t \<noteq> ''/clear''" "t \<noteq> ''/status''" "t \<noteq> ''/help''"
    by blast
  then show ?thesis
  proof cases
    case 1
    then show ?thesis
      by (simp only: handle_command_reset set_calls_send_message send_message_others
            clear_session_others simp_thms)
  next
    case 2
    show ?thesis
      unfolding 2 handle_command_status
      by (cases "get_agent_config (settings st)")
         (simp_all add: set_calls_send_message send_message_others set_calls_called called_fields)
  next
    case 3
    show ?thesis
      unfolding 3 handle_command_help
      by (simp add: set_calls_send_message send_message_others)
  next
    case 4
    then show ?thesis
      by (simp only: handle_command_unknown set_calls_send_message send_message_others simp_thms)
  qed
qed


lemma query_stream_others:
  "api_requests (snd (query_stream prompt session_id st))
     = api_requests st @ [\<lparr>model = client_model st, max_tokens = 4096,
                            messages = [(''user'', prompt)]\<rparr>]
   \<and> entered (snd (query_stream prompt session_id st)) = entered st
   \<and> sessions (snd (query_stream prompt session_id st)) = sessions st
   \<and> lark_requests (snd (query_stream prompt session_id st)) = lark_requests st"
  by (simp add: query_stream_def Let_def split: sum.splits)

lemma query_stream_yields:
  "\<exists>m. fst (query_stream prompt session_id st) = ([m], None)"
  by (simp add: query_stream_def Let_def split: sum.splits)



lemma process_agent_message_others:
  "set_calls (snd (process_agent_message chat_id prompt st)) = set_calls st"
proof -
  obtain st1 where 1: "send_message chat_id ''Processing...'' st = (Inr (), st1)"
    and e1: "entered st1 = entered st"
    using send_message_pair [of chat_id "''Processing...''" st] send_message_others by metis
  let ?st2 = "called (GetCall chat_id) st1"
  obtain m st3 where 3: "query_stream prompt (sessions ?st2 chat_id) ?st2 = (([m], None), st3)"
    and e3: "entered st3 = entered ?st2"
    using query_stream_yields [of prompt "sessions ?st2 chat_id" ?st2]
      query_stream_others [of prompt "sessions ?st2 chat_id" ?st2]
    by (cases "query_stream prompt (sessions ?st2 chat_id) ?st2") auto
  have "entered (snd (agent_body chat_id prompt (sessions ?st2 chat_id) ?st2)) = entered ?st2"
    and "fst (agent_body chat_id prompt (sessions ?st2 chat_id) ?st2) = Inr ()"
    by (simp_all add: agent_body_def 3 e3 Let_def send_message_others send_message_returns)
  then have "entered (snd (process_agent_message chat_id prompt st)) = entered st @ [GetCall chat_id]"
    by (cases "agent_body chat_id prompt (sessions ?st2 chat_id) ?st2")
       (simp add: process_agent_message_def 1 get_session_id_def Let_def e1 called_fields)
  then show ?thesis
    by (simp add: set_calls_def)
qed

lemma set_calls_logger: "set_calls (logger lv msg st) = set_calls st"
  by (simp add: set_calls_def logger_def)

lemma handle_message_receive_v1_others:
  "set_calls (snd (handle_message_receive_v1 data st)) = set_calls st"
  by (simp add: handle_message_receive_v1_def Let_def create_task_def set_calls_logger
        handle_command_others process_agent_message_others
      split: sum.splits)

lemma deliver_others: "set_calls (deliver events st) = set_calls st"
  by (induction events arbitrary: st) (simp_all add: handle_message_receive_v1_others)

lemma start_others: "set_calls (snd (start events st)) = set_calls st"
proof -
  obtain st1 where 1: "load_from_file st = (Inr (), st1)" and e1: "entered st1 = entered st @ [LoadCall]"
    using load_from_file_returns [of st] load_from_file_others [of st]
    by (cases "load_from_file st") auto
  have "set_calls (deliver events s) = set_calls st" if "entered s = entered st1" for s
    using that by (simp add: deliver_others) (simp add: set_calls_def e1)
  then show ?thesis
    by (simp add: start_def 1 Let_def stop_def logger_def split: sum.splits)
       (simp add: set_calls_def e1)
qed


lemma set_session_id_is_recorded:
  "set_calls (snd (set_session_id chat_id session_id st)) = set_calls st @ [SetCall chat_id session_id]"
  by (simp add: set_session_id_def set_calls_def save_to_file_others setitem_def called_def)

text \<open>
  C5 (as the code has it). \<^verbatim>\<open>set_session_id\<close> is never called: not while the bot runs
  from \<^verbatim>\<open>start\<close> over any inbound events, not by the event handler, not on the normal
  message path, and not by any command, \<^verbatim>\<open>/status\<close> included, which only calls
  \<^verbatim>\<open>get_session_id\<close>.
\<close>

theorem set_session_id_never_called:
  "set_calls (snd (start events st)) = set_calls st
   \<and> set_calls (snd (handle_message_receive_v1 data st)) = set_calls st
   \<and> set_calls (snd (process_agent_message chat_id prompt st)) = set_calls st
   \<and> set_calls (snd (handle_command chat_id t st)) = set_calls st"
  by (simp add: start_others handle_message_receive_v1_others process_agent_message_others
        handle_command_others)

text \<open>
  No \<^verbatim>\<open>/status\<close> command calls \<^verbatim>\<open>set_session_id\<close>; in a new process the only call it
  makes on the session store is \<^verbatim>\<open>get_session_id\<close>.
\<close>

theorem status_calls_set_counterexample:
  "\<not> (\<exists>st chat_id. set_calls (snd (handle_command chat_id ''/status'' st)) \<noteq> set_calls st)
   \<and> entered (snd (handle_command ''c1'' ''/status'' fresh_state)) = [GetCall ''c1'']"
proof -
  have "get_agent_config (settings fresh_state)
          = Inr \<lparr>cfg_api_key = ''sk-test'', cfg_model = ''claude-3-5-sonnet-20241022'',
                 cfg_api_base_url = None\<rparr>"
    by (simp add: get_agent_config_def fresh_state_def truthy_def)
  then have "entered (snd (handle_command ''c1'' ''/status'' fresh_state)) = [GetCall ''c1'']"
    by (simp add: handle_command_status send_message_others called_fields)
       (simp add: fresh_state_def)
  then show ?thesis
    by (simp add: handle_command_others)
qed

lemma payload_session_cleared:
  \<open>text_payload (escape_lark_text ''Session cleared.'') = ''{"text":"Session cleared."}''\<close>
  by code_simp

lemma startswith_slash: "startswith t ''/'' \<Longrightarrow> t \<noteq> []"
  by (auto simp: startswith_def)

lemma handle_text_command:
  assumes "running st" "message_type data = ''text''"
    "content_text (message_content_str data) = Inr t" "startswith t ''/''"
  shows "handle_message_receive_v1 data st =
     (Inr (), snd (handle_command (message_chat_id data) t
        (logger INFO (''[Received] chat_id: '' @ message_chat_id data @ '', type: ''
                        @ message_type data) st)))"
  using assms startswith_slash [of t]
  by (simp add: handle_message_receive_v1_def Let_def create_task_def)

lemma logger_fields:
  "sessions (logger lv msg st) = sessions st" "lark_requests (logger lv msg st) = lark_requests st"
  "api_requests (logger lv msg st) = api_requests st" "running (logger lv msg st) = running st"
  "entered (logger lv msg st) = entered st"
  by (simp_all add: logger_def)

lemma handle_message_receive_v1_api:
  assumes "content_text (message_content_str data) = Inr t" "startswith t ''/''"
  shows "api_requests (snd (handle_message_receive_v1 data st)) = api_requests st"
proof (cases "running st \<and> message_type data = ''text''")
  case True
  then show ?thesis
    using assms by (simp add: handle_text_command handle_command_others logger_fields)
next
  case False
  then show ?thesis
    by (auto simp: handle_message_receive_v1_def Let_def logger_fields)
qed

text \<open>
  C4. When the bot is running and a text message \<^verbatim>\<open>/reset\<close> arrives for a conversation
  that has a session, the session is removed (a following get returns nothing), the
  message \<^verbatim>\<open>Session cleared.\<close> is sent to that conversation, and no request goes to the
  completion API. No text that starts with \<^verbatim>\<open>/\<close> ever leads to such a request.
\<close>

theorem reset_command_clears_session:
  \<open>(running st \<and> message_type data = ''text''
      \<and> content_text (message_content_str data) = Inr ''/reset''
      \<and> sessions st (message_chat_id data) = Some s \<longrightarrow>
      fst (get_session_id (message_chat_id data) (snd (handle_message_receive_v1 data st)))
        = Inr None
      \<and> lark_requests (snd (handle_message_receive_v1 data st))
          = lark_requests st @ [\<lparr>receive_id_type = ''chat_id'', receive_id = message_chat_id data,
                                  msg_type = ''text'', content = ''{"text":"Session cleared."}''\<rparr>]
      \<and> api_requests (snd (handle_message_receive_v1 data st)) = api_requests st)
   \<and> (content_text (message_content_str data) = Inr t \<and> startswith t ''/'' \<longrightarrow>
      api_requests (snd (handle_message_receive_v1 data st)) = api_requests st)\<close>
proof (intro conjI impI)
  assume a: "running st \<and> message_type data = ''text''
      \<and> content_text (message_content_str data) = Inr ''/reset''
      \<and> sessions st (message_chat_id data) = Some s"
  have sw: "startswith ''/reset'' ''/''"
    by (simp add: startswith_def)
  have h: "handle_message_receive_v1 data st =
     (Inr (), snd (send_message (message_chat_id data) ''Session cleared.''
        (snd (clear_session (message_chat_id data)
          (logger INFO (''[Received] chat_id: '' @ message_chat_id data @ '', type: ''
                          @ message_type data) st)))))"
    using a sw by (simp add: handle_text_command handle_command_reset)
  show "fst (get_session_id (message_chat_id data) (snd (handle_message_receive_v1 data st)))
        = Inr None"
    by (simp add: h get_session_id_def Let_def called_fields send_message_others
          clear_session_others)
  show \<open>lark_requests (snd (handle_message_receive_v1 data st))
          = lark_requests st @ [\<lparr>receive_id_type = ''chat_id'', receive_id = message_chat_id data,
                                  msg_type = ''text'', content = ''{"text":"Session cleared."}''\<rparr>]\<close>
    by (simp add: h send_message_others clear_session_others logger_fields
          payload_session_cleared)
  show "api_requests (snd (handle_message_receive_v1 data st)) = api_requests st"
    using a sw handle_message_receive_v1_api [of data "''/reset''" st] by simp
next
  assume "content_text (message_content_str data) = Inr t \<and> startswith t ''/''"
  then show "api_requests (snd (handle_message_receive_v1 data st)) = api_requests st"
    using handle_message_receive_v1_api [of data t st] by simp
qed

lemma content_text_event: "content_text (message_content_str (text_event c t)) = Inr (strip t)"
  by (simp add: content_text_def text_event_def)

lemma set_c1_running:
  "(snd (set_session_id ''c1'' ''s1'' fresh_state))\<lparr>running := True\<rparr> =
     fresh_state\<lparr>sessions := [''c1'' \<mapsto> ''s1''],
                entered := [SetCall ''c1'' ''s1'', SaveCall],
                files := [''./sessions.json'' \<mapsto> json_dump [''c1'' \<mapsto> ''s1'']],
                dirs := {''.''}, running := True\<rparr>"
  by (simp add: set_in_fresh_state)

theorem reset_command_clears_session_witness:
  \<open>running ((snd (set_session_id ''c1'' ''s1'' fresh_state))\<lparr>running := True\<rparr>)
   \<and> message_type (text_event ''c1'' ''/reset'') = ''text''
   \<and> content_text (message_content_str (text_event ''c1'' ''/reset'')) = Inr ''/reset''
   \<and> sessions ((snd (set_session_id ''c1'' ''s1'' fresh_state))\<lparr>running := True\<rparr>)
        (message_chat_id (text_event ''c1'' ''/reset'')) = Some ''s1''
   \<and> startswith ''/reset'' ''/''
   \<and> fst (get_session_id ''c1'' (snd (handle_message_receive_v1 (text_event ''c1'' ''/reset'')
        ((snd (set_session_id ''c1'' ''s1'' fresh_state))\<lparr>running := True\<rparr>)))) = Inr None
   \<and> lark_requests (snd (handle_message_receive_v1 (text_event ''c1'' ''/reset'')
        ((snd (set_session_id ''c1'' ''s1'' fresh_state))\<lparr>running := True\<rparr>)))
       = [\<lparr>receive_id_type = ''chat_id'', receive_id = ''c1'', msg_type = ''text'',
           content = ''{"text":"Session cleared."}''\<rparr>]
   \<and> api_requests (snd (handle_message_receive_v1 (text_event ''c1'' ''/reset'')
        ((snd (set_session_id ''c1'' ''s1'' fresh_state))\<lparr>running := True\<rparr>))) = []\<close>
proof -
  let ?st = "(snd (set_session_id ''c1'' ''s1'' fresh_state))\<lparr>running := True\<rparr>"
  let ?ev = "text_event ''c1'' ''/reset''"
  have 1: "running ?st \<and> message_type ?ev = ''text''
      \<and> content_text (message_content_str ?ev) = Inr ''/reset''
      \<and> sessions ?st (message_chat_id ?ev) = Some ''s1''"
    by (simp add: set_c1_running content_text_event strip_reset) (simp add: text_event_def)
  have 2: "startswith ''/reset'' ''/''"
    by (simp add: startswith_def)
  have 3: "message_chat_id ?ev = ''c1''" "lark_requests ?st = []" "api_requests ?st = []"
    by (simp_all add: text_event_def set_c1_running) (simp_all add: fresh_state_def)
  show ?thesis
    using 1 2 reset_command_clears_session [of ?st ?ev "''s1''" "''/reset''"]
    by (simp add: 3)
qed

text \<open>
  C7 (as the code has it). On Feishu, a text message that starts with \<^verbatim>\<open>/\<close> and is
  none of \<^verbatim>\<open>/reset\<close>, \<^verbatim>\<open>/clear\<close>, \<^verbatim>\<open>/status\<close>, \<^verbatim>\<open>/help\<close> is answered with
  \<^verbatim>\<open>Unknown command: \<close> followed by the text. On Discord a command that is not
  registered is ignored: \<^verbatim>\<open>on_command_error\<close> sends and prints nothing.
\<close>

theorem unknown_command_reply:
  "(running st \<and> message_type data = ''text''
      \<and> content_text (message_content_str data) = Inr t \<and> startswith t ''/''
      \<and> t \<notin> {''/reset'', ''/clear'', ''/status'', ''/help''} \<longrightarrow>
      lark_requests (snd (handle_message_receive_v1 data st))
        = lark_requests st
          @ [\<lparr>receive_id_type = ''chat_id'', receive_id = message_chat_id data,
              msg_type = ''text'',
              content = text_payload (escape_lark_text (''Unknown command: '' @ t))\<rparr>])
   \<and> on_command_error (CommandNotFound msg) ctx = ctx"
proof (intro conjI impI)
  assume a: "running st \<and> message_type data = ''text''
      \<and> content_text (message_content_str data) = Inr t \<and> startswith t ''/''
      \<and> t \<notin> {''/reset'', ''/clear'', ''/status'', ''/help''}"
  then have "handle_message_receive_v1 data st =
     (Inr (), snd (send_message (message_chat_id data) (''Unknown command: '' @ t)
        (logger INFO (''[Received] chat_id: '' @ message_chat_id data @ '', type: ''
                        @ message_type data) st)))"
    by (simp add: handle_text_command handle_command_unknown)
  then show "lark_requests (snd (handle_message_receive_v1 data st))
        = lark_requests st
          @ [\<lparr>receive_id_type = ''chat_id'', receive_id = message_chat_id data,
              msg_type = ''text'',
              content = text_payload (escape_lark_text (''Unknown command: '' @ t))\<rparr>]"
    by (simp add: send_message_others logger_fields)
next
  show "on_command_error (CommandNotFound msg) ctx = ctx"
    by (simp add: on_command_error_def)
qed

text \<open>
  On Discord the error raised for the unknown command \<^verbatim>\<open>foo\<close> is dropped without a reply.
\<close>

theorem discord_unknown_command_counterexample:
  \<open>channel_sent (on_command_error (CommandNotFound ''Command "foo" is not found'')
      \<lparr>channel_sent = [], printed = []\<rparr>) = []\<close>
  by (simp add: on_command_error_def)

lemma strip_foo: "strip ''/foo'' = ''/foo''"
  by code_simp

lemma payload_unknown_foo:
  \<open>text_payload (escape_lark_text ''Unknown command: /foo'')
     = ''{"text":"Unknown command: /foo"}''\<close>
  by code_simp

theorem unknown_command_reply_witness:
  \<open>running (fresh_state\<lparr>running := True\<rparr>)
   \<and> message_type (text_event ''c1'' ''/foo'') = ''text''
   \<and> content_text (message_content_str (text_event ''c1'' ''/foo'')) = Inr ''/foo''
   \<and> startswith ''/foo'' ''/''
   \<and> ''/foo'' \<notin> {''/reset'', ''/clear'', ''/status'', ''/help''}
   \<and> lark_requests (snd (handle_message_receive_v1 (text_event ''c1'' ''/foo'')
        (fresh_state\<lparr>running := True\<rparr>)))
       = [\<lparr>receive_id_type = ''chat_id'', receive_id = ''c1'', msg_type = ''text'',
           content = ''{"text":"Unknown command: /foo"}''\<rparr>]\<close>
proof -
  let ?st = "fresh_state\<lparr>running := True\<rparr>"
  let ?ev = "text_event ''c1'' ''/foo''"
  have 1: "running ?st \<and> message_type ?ev = ''text''
      \<and> content_text (message_content_str ?ev) = Inr ''/foo'' \<and> startswith ''/foo'' ''/''
      \<and> ''/foo'' \<notin> {''/reset'', ''/clear'', ''/status'', ''/help''}"
    by (simp add: content_text_event strip_foo startswith_def) (simp add: text_event_def)
  have 3: "message_chat_id ?ev = ''c1''" "lark_requests ?st = []"
    by (simp_all add: text_event_def fresh_state_def)
  show ?thesis
    using 1 unknown_command_reply [of ?st ?ev "''/foo''"]
    by (simp add: 3 payload_unknown_foo)
qed

end
